theory Spec2Isabelle
  imports Main
begin

section \<open>Go values as seen through reflection\<close>

text \<open>
  The package inspects its arguments with Go's \<^verbatim>\<open>reflect\<close>. The fragment of Go's
  type universe that the code distinguishes is modelled here: \<^verbatim>\<open>int\<close> stands for
  every type that is neither a string, a pointer, a slice nor a struct; the three
  string kinds are the builtin \<^verbatim>\<open>string\<close>, \<^verbatim>\<open>bson.ObjectId\<close> and this package's
  \<^verbatim>\<open>Id\<close>; \<^verbatim>\<open>time.Time\<close> is a struct without exported fields. Structs are flat
  (no embedded fields), their fields are exported and not of interface type.

  A pointer carries its pointee (\<open>V_Ptr\<close>) or, when nil, its element type
  (\<open>V_NilPtr\<close>); writing through a pointer returns the updated value, so every
  operation below returns its argument as it is after the call. Two pointers
  are never aliases of each other here.
\<close>

datatype kind = K_Invalid | K_Int | K_Ptr | K_Slice | K_String | K_Struct

datatype gotype =
    T_int
  | T_string
  | T_ObjectId
  | T_Id
  | T_Time
  | T_Ptr gotype
  | T_Slice gotype
  | T_Struct string "(string \<times> gotype) list"

datatype goval =
    V_int int
  | V_string string
  | V_ObjectId string
  | V_Id string
  | V_Time nat
  | V_NilPtr gotype
  | V_Ptr goval
  | V_Slice gotype "goval list"
  | V_Struct string "(string \<times> goval) list"

text \<open>
  An \<^verbatim>\<open>interface{}\<close> argument is a \<open>goval option\<close>, \<open>None\<close> being the nil
  interface; a \<^verbatim>\<open>reflect.Value\<close> is a \<open>goval option\<close> too, \<open>None\<close> being the
  zero Value (whose Kind is Invalid).
\<close>

datatype 'a result = Return 'a | Panic

datatype error =
    NoPtr
  | errorString string
  | mgoError string

fun TypeOf :: "goval \<Rightarrow> gotype" where
  "TypeOf (V_int _) = T_int"
| "TypeOf (V_string _) = T_string"
| "TypeOf (V_ObjectId _) = T_ObjectId"
| "TypeOf (V_Id _) = T_Id"
| "TypeOf (V_Time _) = T_Time"
| "TypeOf (V_NilPtr t) = T_Ptr t"
| "TypeOf (V_Ptr v) = T_Ptr (TypeOf v)"
| "TypeOf (V_Slice t _) = T_Slice t"
| "TypeOf (V_Struct n fs) = T_Struct n (map (\<lambda>(k, v). (k, TypeOf v)) fs)"

fun Type_Kind :: "gotype \<Rightarrow> kind" where
  "Type_Kind T_int = K_Int"
| "Type_Kind T_string = K_String"
| "Type_Kind T_ObjectId = K_String"
| "Type_Kind T_Id = K_String"
| "Type_Kind T_Time = K_Struct"
| "Type_Kind (T_Ptr _) = K_Ptr"
| "Type_Kind (T_Slice _) = K_Slice"
| "Type_Kind (T_Struct _ _) = K_Struct"

fun Type_Name :: "gotype \<Rightarrow> string" where
  "Type_Name T_int = ''int''"
| "Type_Name T_string = ''string''"
| "Type_Name T_ObjectId = ''ObjectId''"
| "Type_Name T_Id = ''Id''"
| "Type_Name T_Time = ''Time''"
| "Type_Name (T_Ptr _) = []"
| "Type_Name (T_Slice _) = []"
| "Type_Name (T_Struct n _) = n"

text \<open>\<^verbatim>\<open>t.Elem()\<close> on a type: defined for pointers and slices, a panic otherwise.\<close>

fun Type_Elem :: "gotype \<Rightarrow> gotype option" where
  "Type_Elem (T_Ptr t) = Some t"
| "Type_Elem (T_Slice t) = Some t"
| "Type_Elem _ = None"

text \<open>\<^verbatim>\<open>t.FieldByName(name)\<close> on a struct type: is there such a field.\<close>

fun Type_hasField :: "gotype \<Rightarrow> string \<Rightarrow> bool" where
  "Type_hasField (T_Struct _ fs) name = (map_of fs name \<noteq> None)"
| "Type_hasField _ name = False"

definition Kind :: "goval option \<Rightarrow> kind" where
  "Kind v = (case v of None \<Rightarrow> K_Invalid | Some x \<Rightarrow> Type_Kind (TypeOf x))"

text \<open>\<^verbatim>\<open>v.Elem()\<close> on a Value of kind Ptr: the pointee, the zero Value for nil.\<close>

fun Elem :: "goval option \<Rightarrow> goval option" where
  "Elem (Some (V_Ptr x)) = Some x"
| "Elem _ = None"

text \<open>
  \<^verbatim>\<open>v.FieldByName(name)\<close> on a Value of kind Struct: the field, or the zero Value
  when the struct has no such field.
\<close>

fun FieldByName :: "goval \<Rightarrow> string \<Rightarrow> goval option" where
  "FieldByName (V_Struct _ fs) name = map_of fs name"
| "FieldByName _ name = None"

text \<open>
  Writing \<open>x\<close> to the Value \<open>f\<close> obtained from field \<open>name\<close> (after the code's
  \<^verbatim>\<open>if f.Kind() == reflect.Ptr { f = f.Elem() }\<close>): into the field itself, or into
  the pointee when the field is a pointer.
\<close>

fun assign :: "goval \<Rightarrow> goval \<Rightarrow> goval" where
  "assign (V_Ptr _) x = V_Ptr x"
| "assign _ x = x"

fun update_field :: "string \<Rightarrow> goval \<Rightarrow> (string \<times> goval) list \<Rightarrow> (string \<times> goval) list" where
  "update_field name x [] = []"
| "update_field name x ((k, old) # fs) =
     (if k = name then (k, assign old x) # fs else (k, old) # update_field name x fs)"

definition Set_field :: "goval option \<Rightarrow> string \<Rightarrow> goval \<Rightarrow> goval option" where
  "Set_field i name x =
     (case i of
        Some (V_Ptr (V_Struct n fs)) \<Rightarrow> Some (V_Ptr (V_Struct n (update_field name x fs)))
      | Some (V_Struct n fs) \<Rightarrow> Some (V_Struct n (update_field name x fs))
      | _ \<Rightarrow> i)"

text \<open>
  \<^verbatim>\<open>f.CanSet()\<close>: the field of a struct reached through a pointer is addressable,
  and so is the pointee of a pointer field; the field of a struct passed by value
  is not.
\<close>

definition CanSet :: "goval option \<Rightarrow> goval option \<Rightarrow> bool" where
  "CanSet i f0 = (Kind i = K_Ptr \<or> Kind f0 = K_Ptr)"

section \<open>Object identifiers and their hexadecimal form\<close>

text \<open>
  \<^verbatim>\<open>bson.ObjectId\<close> is a Go string holding raw bytes; a \<open>string\<close> here, one
  \<open>char\<close> per byte. The functions of this section belong to the bson package
  and are modelled after its documentation: \<^verbatim>\<open>Valid\<close> is "twelve bytes long",
  \<^verbatim>\<open>Hex\<close> is lower-case base 16, \<^verbatim>\<open>ObjectIdHex\<close> decodes base 16 of either
  case and panics unless the input decodes to twelve bytes.
\<close>

definition Valid :: "string \<Rightarrow> bool" where
  "Valid oid = (length oid = 12)"

definition hexdigit :: "nat \<Rightarrow> char" where
  "hexdigit n = char_of (if n < 10 then 48 + n else 87 + n)"

fun Hex :: "string \<Rightarrow> string" where
  "Hex [] = []"
| "Hex (c # cs) = hexdigit (of_char c div 16) # hexdigit (of_char c mod 16) # Hex cs"

definition fromHexChar :: "char \<Rightarrow> nat option" where
  "fromHexChar c =
     (let n = (of_char c :: nat) in
      if 48 \<le> n \<and> n \<le> 57 then Some (n - 48)
      else if 97 \<le> n \<and> n \<le> 102 then Some (n - 87)
      else if 65 \<le> n \<and> n \<le> 70 then Some (n - 55)
      else None)"

fun DecodeString :: "string \<Rightarrow> string option" where
  "DecodeString [] = Some []"
| "DecodeString [c] = None"
| "DecodeString (a # b # cs) =
     (case (fromHexChar a, fromHexChar b, DecodeString cs) of
        (Some h, Some l, Some ds) \<Rightarrow> Some (char_of (h * 16 + l) # ds)
      | _ \<Rightarrow> None)"

definition IsObjectIdHex :: "string \<Rightarrow> bool" where
  "IsObjectIdHex s = (case DecodeString s of Some d \<Rightarrow> length d = 12 | None \<Rightarrow> False)"

definition ObjectIdHex :: "string \<Rightarrow> string result" where
  "ObjectIdHex s =
     (case DecodeString s of
        Some d \<Rightarrow> if length d = 12 then Return d else Panic
      | None \<Rightarrow> Panic)"


section \<open>The world outside the package\<close>

text \<open>
  The mgo driver, \<^verbatim>\<open>bson.NewObjectId\<close>, the bson decoder and \<^verbatim>\<open>time.Now\<close> are
  not part of the package: they are parameters of the model. \<open>'d\<close> is the state
  of the database server. A driver call returns \<open>None\<close> for a nil error and
  \<open>Some msg\<close> for an error of the driver; \<^verbatim>\<open>One\<close> and \<^verbatim>\<open>All\<close> also return
  the target as they leave it. \<open>bson_NewObjectId n\<close> is the identifier made by
  the \<open>n\<close>-th call of \<^verbatim>\<open>bson.NewObjectId\<close>, \<open>time_Now n\<close> the instant read by
  the \<open>n\<close>-th call of \<^verbatim>\<open>time.Now\<close>.

  The types of the package's callers are parameters too: \<open>user_Getter t\<close>
  says whether such a type \<open>t\<close> has a method \<^verbatim>\<open>GetBSON\<close>, that is, implements
  \<^verbatim>\<open>bson.Getter\<close>, and \<open>user_GetBSON x\<close> is what that method returns on the
  value \<open>x\<close>: the \<^verbatim>\<open>interface{}\<close> and the error, or a panic. The method is
  taken to be a function of its receiver, which reads and writes nothing else.
  \<open>fmt_t i\<close> is the text that the verb \<^verbatim>\<open>%t\<close> of \<^verbatim>\<open>fmt\<close> makes of \<open>i\<close>.
\<close>

type_synonym bsonM = "(string \<times> goval) list"

type_synonym coll = "string \<times> string"

record 'd mgo =
  mgo_Dial :: "'d \<Rightarrow> string \<Rightarrow> string option"
  coll_Insert :: "'d \<Rightarrow> coll \<Rightarrow> goval option \<Rightarrow> string option \<times> 'd"
  query_One :: "'d \<Rightarrow> coll \<Rightarrow> bsonM \<Rightarrow> goval option \<Rightarrow> string option \<times> goval option"
  query_All :: "'d \<Rightarrow> coll \<Rightarrow> bsonM \<Rightarrow> goval option \<Rightarrow> string option \<times> goval option"
  coll_Update :: "'d \<Rightarrow> coll \<Rightarrow> bsonM \<Rightarrow> goval option \<Rightarrow> string option \<times> 'd"
  coll_RemoveId :: "'d \<Rightarrow> coll \<Rightarrow> string \<Rightarrow> string option \<times> 'd"
  coll_Count :: "'d \<Rightarrow> coll \<Rightarrow> int \<times> string option"
  bson_NewObjectId :: "nat \<Rightarrow> string"
  bson_Unmarshal :: "nat \<Rightarrow> string \<Rightarrow> string + string"
  time_Now :: "nat \<Rightarrow> nat"
  user_Getter :: "gotype \<Rightarrow> bool"
  user_GetBSON :: "goval \<Rightarrow> (goval option \<times> error option) result"
  fmt_t :: "goval option \<Rightarrow> string"

text \<open>
  Every call of a collection method is written to \<open>trace\<close>, with the error it
  returned. The trace is no variable of the package: it is the history of what
  the package asked of storage, kept so that "no write" and "never attempted"
  can be stated for every driver.
\<close>

datatype call =
    Insert_call coll "goval option" "string option"
  | Find_call coll bsonM "string option"
  | Update_call coll bsonM "goval option" "string option"
  | RemoveId_call coll string "string option"
  | Count_call coll

text \<open>
  The package's variables (\<open>mgoSession\<close> is "\<^verbatim>\<open>mgoSession != nil\<close>"), the two
  counters of the parameters above, the server and the trace.
\<close>

record 'd world =
  mgoSession :: bool
  servers :: string
  database :: string
  objectIdCounter :: nat
  clockReads :: nat
  server :: 'd
  trace :: "call list"

section \<open>The package, as in src/unnamed/part_001\<close>

text \<open>
  The parameter \<^verbatim>\<open>servers\<close> of \<^verbatim>\<open>SetServers\<close> hides the package's variable of
  that name, which is therefore never assigned. A failed \<^verbatim>\<open>mgo.Dial\<close> returns a
  nil session.
\<close>

definition SetServers :: "'d mgo \<Rightarrow> 'd world \<Rightarrow> string \<Rightarrow> string \<Rightarrow> error option \<times> 'd world" where
  "SetServers D w srv db =
     (case mgo_Dial D (server w) srv of
        Some msg \<Rightarrow> (Some (mgoError msg), w\<lparr>database := db, mgoSession := False\<rparr>)
      | None \<Rightarrow> (None, w\<lparr>database := db, mgoSession := True\<rparr>))"

definition GetSession :: "'d mgo \<Rightarrow> 'd world \<Rightarrow> error option \<times> 'd world" where
  "GetSession D w =
     (if \<not> mgoSession w then
        (case mgo_Dial D (server w) (servers w) of
           Some msg \<Rightarrow> (Some (mgoError msg), w)
         | None \<Rightarrow> (None, w\<lparr>mgoSession := True\<rparr>))
      else (None, w))"

definition GetColl :: "'d world \<Rightarrow> string \<Rightarrow> coll" where
  "GetColl w c = (database w, c)"

definition isPtr :: "goval option \<Rightarrow> bool" where
  "isPtr i = (Kind i = K_Ptr)"

definition isSlice :: "gotype \<Rightarrow> bool" where
  "isSlice t = (case t of T_Ptr e \<Rightarrow> Type_Kind e = K_Slice | _ \<Rightarrow> Type_Kind t = K_Slice)"

text \<open>\<^verbatim>\<open>reflect.TypeOf(nil)\<close> is nil, and \<^verbatim>\<open>t.Kind()\<close> on it panics.\<close>

definition typeName :: "goval option \<Rightarrow> string result" where
  "typeName i =
     (case i of
        None \<Rightarrow> Panic
      | Some x \<Rightarrow>
          (let t = TypeOf x;
               t = (case t of T_Ptr e \<Rightarrow> e | _ \<Rightarrow> t)
           in if isSlice t then
                (case Type_Elem t of
                   None \<Rightarrow> Panic
                 | Some t \<Rightarrow> Return (Type_Name (case t of T_Ptr e \<Rightarrow> e | _ \<Rightarrow> t)))
              else Return (Type_Name t)))"

definition hasStructField :: "goval option \<Rightarrow> string \<Rightarrow> bool result" where
  "hasStructField i field =
     (case i of
        None \<Rightarrow> Panic
      | Some x \<Rightarrow>
          (let t = TypeOf x;
               t = (case t of T_Ptr e \<Rightarrow> e | _ \<Rightarrow> t)
           in if Type_Kind t \<noteq> K_Struct then Return False
              else Return (Type_hasField t field)))"

text \<open>
  \<^verbatim>\<open>v.FieldByName\<close> panics on the zero Value (a nil pointer was dereferenced), and
  so does \<^verbatim>\<open>f.Type()\<close> (the field is a nil pointer).
\<close>

definition addCurrentDateTime ::
  "'d mgo \<Rightarrow> 'd world \<Rightarrow> goval option \<Rightarrow> string \<Rightarrow> error option result \<times> goval option \<times> 'd world" where
  "addCurrentDateTime D w i name =
     (case hasStructField i name of
        Panic \<Rightarrow> (Panic, i, w)
      | Return False \<Rightarrow> (Return None, i, w)
      | Return True \<Rightarrow>
          (let now = time_Now D (clockReads w);
               w = w\<lparr>clockReads := clockReads w + 1\<rparr>;
               v = (if Kind i = K_Ptr then Elem i else i)
           in case v of
                None \<Rightarrow> (Panic, i, w)
              | Some s \<Rightarrow>
                  (let f0 = FieldByName s name;
                       f = (if Kind f0 = K_Ptr then Elem f0 else f0)
                   in case f of
                        None \<Rightarrow> (Panic, i, w)
                      | Some x \<Rightarrow>
                          if T_Time \<noteq> TypeOf x then
                            (Return (Some (errorString (name @ '' must be time.Time type.''))), i, w)
                          else if \<not> CanSet i f0 then
                            (Return (Some (errorString (''Couldn't set time for field: '' @ name))), i, w)
                          else (Return None, Set_field i name (V_Time now), w))))"

text \<open>\<^verbatim>\<open>f.SetString(s)\<close> keeps the type of the string-kind Value it writes to.\<close>

fun SetString :: "goval \<Rightarrow> string \<Rightarrow> goval" where
  "SetString (V_ObjectId _) s = V_ObjectId s"
| "SetString (V_Id _) s = V_Id s"
| "SetString _ s = V_string s"

text \<open>\<^verbatim>\<open>f.Set\<close> and \<^verbatim>\<open>f.SetString\<close> panic on a Value that cannot be set.\<close>

definition addId ::
  "'d mgo \<Rightarrow> 'd world \<Rightarrow> goval option \<Rightarrow> error option result \<times> goval option \<times> 'd world" where
  "addId D w i =
     (let v = (if Kind i = K_Ptr then Elem i else i)
      in case v of
           None \<Rightarrow> (Return (Some (errorString ''Record must be a struct'')), i, w)
         | Some s \<Rightarrow>
             if Kind v \<noteq> K_Struct then
               (Return (Some (errorString ''Record must be a struct'')), i, w)
             else
               (let f0 = FieldByName s ''Id'';
                    f = (if Kind f0 = K_Ptr then Elem f0 else f0)
                in if Kind f = K_String then
                     (let oid = bson_NewObjectId D (objectIdCounter w);
                          w = w\<lparr>objectIdCounter := objectIdCounter w + 1\<rparr>
                      in if \<not> CanSet i f0 then (Panic, i, w)
                         else
                           (case f of
                              Some (V_ObjectId _) \<Rightarrow>
                                (Return None, Set_field i ''Id'' (V_ObjectId oid), w)
                            | Some x \<Rightarrow>
                                (Return None, Set_field i ''Id'' (SetString x (Hex oid)), w)
                            | None \<Rightarrow> (Return None, i, w)))
                   else (Return None, i, w)))"

definition addNewFields ::
  "'d mgo \<Rightarrow> 'd world \<Rightarrow> goval option \<Rightarrow> error option result \<times> goval option \<times> 'd world" where
  "addNewFields D w i =
     (case addId D w i of
        (Return None, i, w) \<Rightarrow>
          (case addCurrentDateTime D w i ''CreatedAt'' of
             (Return None, i, w) \<Rightarrow> addCurrentDateTime D w i ''UpdatedAt''
           | r \<Rightarrow> r)
      | r \<Rightarrow> r)"

subsection \<open>The Id alias\<close>

definition GetBSON :: "string \<Rightarrow> (string \<times> error option) result" where
  "GetBSON i = (case ObjectIdHex i of Panic \<Rightarrow> Panic | Return oid \<Rightarrow> Return (oid, None))"

text \<open>
  \<^verbatim>\<open>raw.Unmarshal(&objId)\<close>: an element of kind 0x07 is the twelve bytes of an
  ObjectId, and too short a value is reported as an error; what the decoder
  makes of the other kinds is left to the parameter \<open>bson_Unmarshal\<close>
  (\<open>Inl\<close> the error).
\<close>

datatype Raw = Raw nat string

fun Raw_Unmarshal :: "'d mgo \<Rightarrow> Raw \<Rightarrow> error + string" where
  "Raw_Unmarshal D (Raw k d) =
     (if k = 7 then
        (if 12 \<le> length d then Inr (take 12 d) else Inl (mgoError ''Document is corrupted''))
      else (case bson_Unmarshal D k d of Inl msg \<Rightarrow> Inl (mgoError msg) | Inr oid \<Rightarrow> Inr oid))"

text \<open>\<open>SetBSON D i raw\<close> returns the error and the receiver \<^verbatim>\<open>*i\<close> after the call.\<close>

definition SetBSON :: "'d mgo \<Rightarrow> string \<Rightarrow> Raw \<Rightarrow> error option \<times> string" where
  "SetBSON D i raw =
     (case Raw_Unmarshal D raw of
        Inl err \<Rightarrow> (Some err, i)
      | Inr objId \<Rightarrow> (None, Hex objId))"


subsection \<open>Identifier resolution\<close>

text \<open>
  Which dynamic types implement \<^verbatim>\<open>bson.Getter\<close>. \<^verbatim>\<open>Id\<close> does and so does
  \<^verbatim>\<open>*Id\<close>, whose method set holds the methods of \<^verbatim>\<open>Id\<close>. The builtin
  \<^verbatim>\<open>string\<close>, \<^verbatim>\<open>bson.ObjectId\<close> and \<^verbatim>\<open>time.Time\<close> have no method
  \<^verbatim>\<open>GetBSON\<close>, nor have the pointers to them; an unnamed slice type and a
  pointer to a pointer or to such a slice have no methods at all. For every
  other type (a struct of the caller, a pointer to one, or one of the types
  that \<^verbatim>\<open>int\<close> stands for) the parameter \<open>user_Getter\<close> decides.
\<close>

fun implements_Getter :: "'d mgo \<Rightarrow> gotype \<Rightarrow> bool" where
  "implements_Getter D T_Id = True"
| "implements_Getter D (T_Ptr T_Id) = True"
| "implements_Getter D T_string = False"
| "implements_Getter D T_ObjectId = False"
| "implements_Getter D T_Time = False"
| "implements_Getter D (T_Slice _) = False"
| "implements_Getter D (T_Ptr T_string) = False"
| "implements_Getter D (T_Ptr T_ObjectId) = False"
| "implements_Getter D (T_Ptr T_Time) = False"
| "implements_Getter D (T_Ptr (T_Ptr _)) = False"
| "implements_Getter D (T_Ptr (T_Slice _)) = False"
| "implements_Getter D t = user_Getter D t"

text \<open>
  \<^verbatim>\<open>id.GetBSON()\<close> on a value whose type implements \<^verbatim>\<open>bson.Getter\<close>: the
  package's own method for \<^verbatim>\<open>Id\<close> and \<^verbatim>\<open>*Id\<close> (a panic through a nil
  \<^verbatim>\<open>*Id\<close>), the caller's method otherwise.
\<close>

definition call_GetBSON :: "'d mgo \<Rightarrow> goval \<Rightarrow> (goval option \<times> error option) result" where
  "call_GetBSON D x =
     (case x of
        V_Id a \<Rightarrow>
          (case GetBSON a of
             Panic \<Rightarrow> Panic
           | Return (oid, err) \<Rightarrow> Return (Some (V_ObjectId oid), err))
      | V_Ptr (V_Id a) \<Rightarrow>
          (case GetBSON a of
             Panic \<Rightarrow> Panic
           | Return (oid, err) \<Rightarrow> Return (Some (V_ObjectId oid), err))
      | V_NilPtr T_Id \<Rightarrow> Panic
      | _ \<Rightarrow> user_GetBSON D x)"

definition unknownIdType :: "'d mgo \<Rightarrow> goval option \<Rightarrow> error" where
  "unknownIdType D i =
     errorString
       (''Unknown type in Id field. Expected string or bson.ObjectId. Received: '' @ fmt_t D i)"

text \<open>
  \<^verbatim>\<open>f.Interface()\<close> panics on the zero Value (no field \<^verbatim>\<open>Id\<close>, or a nil pointer
  in it). The type assertion \<^verbatim>\<open>objId.(bson.ObjectId)\<close> panics when
  \<^verbatim>\<open>GetBSON\<close> returned, without error, anything but a \<^verbatim>\<open>bson.ObjectId\<close>.
\<close>

definition getObjIdFromStruct ::
  "'d mgo \<Rightarrow> 'd world \<Rightarrow> goval option \<Rightarrow> (string \<times> error option) result \<times> 'd world" where
  "getObjIdFromStruct D w i =
     (let v = (if Kind i = K_Ptr then Elem i else i)
      in case v of
           None \<Rightarrow>
             (Return ([], Some (errorString ''Can't delete record. Type must be a struct.'')), w)
         | Some s \<Rightarrow>
             if Kind v \<noteq> K_Struct then
               (Return ([], Some (errorString ''Can't delete record. Type must be a struct.'')), w)
             else
               (let f0 = FieldByName s ''Id'';
                    f = (if Kind f0 = K_Ptr then Elem f0 else f0)
                in case f of
                     None \<Rightarrow> (Panic, w)
                   | Some (V_ObjectId oid) \<Rightarrow> (Return (oid, None), w)
                   | Some x \<Rightarrow>
                       if implements_Getter D (TypeOf x) then
                         (case call_GetBSON D x of
                            Panic \<Rightarrow> (Panic, w)
                          | Return (objId, Some err) \<Rightarrow>
                              (Return (bson_NewObjectId D (objectIdCounter w), Some err),
                               w\<lparr>objectIdCounter := objectIdCounter w + 1\<rparr>)
                          | Return (Some (V_ObjectId oid), None) \<Rightarrow> (Return (oid, None), w)
                          | Return (_, None) \<Rightarrow> (Panic, w))
                       else
                         (Return (bson_NewObjectId D (objectIdCounter w),
                                  Some (unknownIdType D i)),
                          w\<lparr>objectIdCounter := objectIdCounter w + 1\<rparr>)))"

subsection \<open>The exported operations\<close>

text \<open>
  The body of the loop of \<^verbatim>\<open>Insert\<close>, for one record. The deferred
  \<^verbatim>\<open>s.Close()\<close> has no effect on anything modelled here.
\<close>

definition Insert_rec ::
  "'d mgo \<Rightarrow> 'd world \<Rightarrow> goval option \<Rightarrow> error option result \<times> goval option \<times> 'd world" where
  "Insert_rec D w rec =
     (if \<not> isPtr rec then (Return (Some NoPtr), rec, w)
      else
        (case addNewFields D w rec of
           (Return None, rec, w) \<Rightarrow>
             (case GetSession D w of
                (Some err, w) \<Rightarrow> (Return (Some err), rec, w)
              | (None, w) \<Rightarrow>
                  (case typeName rec of
                     Panic \<Rightarrow> (Panic, rec, w)
                   | Return name \<Rightarrow>
                       (case coll_Insert D (server w) (GetColl w name) rec of
                          (err, d) \<Rightarrow>
                            (Return (map_option mgoError err), rec,
                             w\<lparr>server := d,
                                trace := trace w @ [Insert_call (GetColl w name) rec err]\<rparr>))))
         | r \<Rightarrow> r))"

fun Insert ::
  "'d mgo \<Rightarrow> 'd world \<Rightarrow> goval option list \<Rightarrow> error option result \<times> goval option list \<times> 'd world" where
  "Insert D w [] = (Return None, [], w)"
| "Insert D w (rec # records) =
     (case Insert_rec D w rec of
        (Return None, rec, w) \<Rightarrow>
          (case Insert D w records of (r, records, w) \<Rightarrow> (r, rec # records, w))
      | (r, rec, w) \<Rightarrow> (r, rec # records, w))"

definition Find ::
  "'d mgo \<Rightarrow> 'd world \<Rightarrow> goval option \<Rightarrow> bsonM \<Rightarrow> error option result \<times> goval option \<times> 'd world" where
  "Find D w i q =
     (if \<not> isPtr i then (Return (Some NoPtr), i, w)
      else
        (case GetSession D w of
           (Some err, w) \<Rightarrow> (Return (Some err), i, w)
         | (None, w) \<Rightarrow>
             (case (typeName i, i) of
                (Return name, Some x) \<Rightarrow>
                  (case (if isSlice (TypeOf x)
                         then query_All D (server w) (GetColl w name) q i
                         else query_One D (server w) (GetColl w name) q i) of
                     (err, i) \<Rightarrow>
                       (Return (map_option mgoError err), i,
                        w\<lparr>trace := trace w @ [Find_call (GetColl w name) q err]\<rparr>))
              | _ \<Rightarrow> (Panic, i, w))))"

text \<open>\<^verbatim>\<open>bson.ObjectIdHex(id)\<close> is evaluated before \<^verbatim>\<open>Find\<close> is entered.\<close>

definition FindById ::
  "'d mgo \<Rightarrow> 'd world \<Rightarrow> goval option \<Rightarrow> string \<Rightarrow> error option result \<times> goval option \<times> 'd world" where
  "FindById D w i hex =
     (case ObjectIdHex hex of
        Panic \<Rightarrow> (Panic, i, w)
      | Return oid \<Rightarrow> Find D w i [(''_id'', V_ObjectId oid)])"

definition Update ::
  "'d mgo \<Rightarrow> 'd world \<Rightarrow> goval option \<Rightarrow> error option result \<times> goval option \<times> 'd world" where
  "Update D w i =
     (if \<not> isPtr i then (Return (Some NoPtr), i, w)
      else
        (case addCurrentDateTime D w i ''UpdatedAt'' of
           (Return None, i, w) \<Rightarrow>
             (case GetSession D w of
                (Some err, w) \<Rightarrow> (Return (Some err), i, w)
              | (None, w) \<Rightarrow>
                  (case getObjIdFromStruct D w i of
                     (Panic, w) \<Rightarrow> (Panic, i, w)
                   | (Return (oid, Some err), w) \<Rightarrow> (Return (Some err), i, w)
                   | (Return (oid, None), w) \<Rightarrow>
                       (case typeName i of
                          Panic \<Rightarrow> (Panic, i, w)
                        | Return name \<Rightarrow>
                            (case coll_Update D (server w) (GetColl w name)
                                    [(''_id'', V_ObjectId oid)] i of
                               (err, d) \<Rightarrow>
                                 (Return (map_option mgoError err), i,
                                  w\<lparr>server := d,
                                     trace := trace w @
                                       [Update_call (GetColl w name)
                                          [(''_id'', V_ObjectId oid)] i err]\<rparr>)))))
         | r \<Rightarrow> r))"

definition Delete ::
  "'d mgo \<Rightarrow> 'd world \<Rightarrow> goval option \<Rightarrow> error option result \<times> 'd world" where
  "Delete D w i =
     (if \<not> isPtr i then (Return (Some NoPtr), w)
      else
        (case GetSession D w of
           (Some err, w) \<Rightarrow> (Return (Some err), w)
         | (None, w) \<Rightarrow>
             (case getObjIdFromStruct D w i of
                (Panic, w) \<Rightarrow> (Panic, w)
              | (Return (oid, Some err), w) \<Rightarrow> (Return (Some err), w)
              | (Return (oid, None), w) \<Rightarrow>
                  (case typeName i of
                     Panic \<Rightarrow> (Panic, w)
                   | Return name \<Rightarrow>
                       (case coll_RemoveId D (server w) (GetColl w name) oid of
                          (err, d) \<Rightarrow>
                            (Return (map_option mgoError err),
                             w\<lparr>server := d,
                                trace := trace w @
                                  [RemoveId_call (GetColl w name) oid err]\<rparr>))))))"

definition Count ::
  "'d mgo \<Rightarrow> 'd world \<Rightarrow> goval option \<Rightarrow> (int \<times> error option) result \<times> 'd world" where
  "Count D w i =
     (case GetSession D w of
        (Some err, w) \<Rightarrow> (Return (0, Some err), w)
      | (None, w) \<Rightarrow>
          (case typeName i of
             Panic \<Rightarrow> (Panic, w)
           | Return name \<Rightarrow>
               (case coll_Count D (server w) (GetColl w name) of
                  (n, err) \<Rightarrow>
                    (Return (n, map_option mgoError err),
                     w\<lparr>trace := trace w @ [Count_call (GetColl w name)]\<rparr>))))"

section \<open>The functions that differ in src/mongo.go\<close>

text \<open>
  \<^verbatim>\<open>src/mongo.go\<close> is the revision of the package on \<^verbatim>\<open>labix.org/v2/mgo\<close>. It
  has no \<^verbatim>\<open>Count\<close> and no \<^verbatim>\<open>Id\<close>, and three of its functions differ from the
  ones above; they carry the suffix \<open>labix\<close>. The type assertion
  \<^verbatim>\<open>f.Interface().(bson.ObjectId)\<close> panics on every other dynamic type.
\<close>

definition FindById_labix ::
  "'d mgo \<Rightarrow> 'd world \<Rightarrow> goval option \<Rightarrow> string \<Rightarrow> error option result \<times> goval option \<times> 'd world" where
  "FindById_labix D w i s = Find D w i [(''_id'', V_string s)]"

definition getObjIdFromStruct_labix :: "goval option \<Rightarrow> (string \<times> error option) result" where
  "getObjIdFromStruct_labix i =
     (let v = (if Kind i = K_Ptr then Elem i else i)
      in case v of
           None \<Rightarrow> Return ([], Some (errorString ''Can't delete record. Type must be a struct.''))
         | Some s \<Rightarrow>
             if Kind v \<noteq> K_Struct then
               Return ([], Some (errorString ''Can't delete record. Type must be a struct.''))
             else
               (let f0 = FieldByName s ''Id'';
                    f = (if Kind f0 = K_Ptr then Elem f0 else f0)
                in case f of
                     Some (V_ObjectId oid) \<Rightarrow> Return (oid, None)
                   | _ \<Rightarrow> Panic))"

definition addId_labix ::
  "'d mgo \<Rightarrow> 'd world \<Rightarrow> goval option \<Rightarrow> error option result \<times> goval option \<times> 'd world" where
  "addId_labix D w i =
     (let v = (if Kind i = K_Ptr then Elem i else i)
      in case v of
           None \<Rightarrow> (Return (Some (errorString ''Record must be a struct'')), i, w)
         | Some s \<Rightarrow>
             if Kind v \<noteq> K_Struct then
               (Return (Some (errorString ''Record must be a struct'')), i, w)
             else
               (let f0 = FieldByName s ''Id'';
                    f = (if Kind f0 = K_Ptr then Elem f0 else f0)
                in if Kind f = K_String then
                     (case f of
                        Some (V_ObjectId old) \<Rightarrow>
                          if \<not> Valid old then
                            (let oid = bson_NewObjectId D (objectIdCounter w);
                                 w = w\<lparr>objectIdCounter := objectIdCounter w + 1\<rparr>
                             in if \<not> CanSet i f0 then (Panic, i, w)
                                else (Return None, Set_field i ''Id'' (V_ObjectId oid), w))
                          else (Return None, i, w)
                      | _ \<Rightarrow> (Panic, i, w))
                   else (Return None, i, w)))"


section \<open>Observers used in the statements\<close>

text \<open>
  The documents the driver was asked to insert (\<open>attempted\<close>), and those of
  them it inserted without error (\<open>inserted\<close>), in the order of the calls.
\<close>

fun inserted :: "call list \<Rightarrow> goval option list" where
  "inserted [] = []"
| "inserted (Insert_call c doc None # cs) = doc # inserted cs"
| "inserted (_ # cs) = inserted cs"

fun attempted :: "call list \<Rightarrow> goval option list" where
  "attempted [] = []"
| "attempted (Insert_call c doc err # cs) = doc # attempted cs"
| "attempted (_ # cs) = attempted cs"

text \<open>
  The Value the package inspects in a field: it follows one pointer, as in
  \<^verbatim>\<open>if f.Kind() == reflect.Ptr { f = f.Elem() }\<close>.
\<close>

definition Indirect :: "goval option \<Rightarrow> goval option" where
  "Indirect f = (if Kind f = K_Ptr then Elem f else f)"


section \<open>A driver in memory, for concrete runs\<close>

text \<open>
  The server is the list of the stored documents, each with its collection.
  Inserting a document whose \<^verbatim>\<open>Id\<close> is already in the collection fails, as do
  updating and removing an identifier that is not there; dialling fails when no
  server is named. The \<open>n\<close>-th new identifier is eleven zero bytes and the byte
  \<open>n\<close>; the clock reads 1000 first and advances by one at every reading.
\<close>

fun deref :: "goval option \<Rightarrow> goval option" where
  "deref (Some (V_Ptr x)) = Some x"
| "deref i = i"

definition doc_id :: "goval \<Rightarrow> goval option" where
  "doc_id x = deref (FieldByName x ''Id'')"

definition mem_has :: "(coll \<times> goval) list \<Rightarrow> coll \<Rightarrow> goval option \<Rightarrow> bool" where
  "mem_has d c k = (filter (\<lambda>(c', y). c' = c \<and> doc_id y = k) d \<noteq> [])"

definition mem_Insert :: "(coll \<times> goval) list \<Rightarrow> coll \<Rightarrow> goval option \<Rightarrow> string option \<times> (coll \<times> goval) list" where
  "mem_Insert d c doc =
     (case deref doc of
        None \<Rightarrow> (Some ''no document'', d)
      | Some x \<Rightarrow>
          if mem_has d c (doc_id x) then (Some ''E11000 duplicate key error'', d)
          else (None, d @ [(c, x)]))"

definition mem_One :: "(coll \<times> goval) list \<Rightarrow> coll \<Rightarrow> bsonM \<Rightarrow> goval option \<Rightarrow> string option \<times> goval option" where
  "mem_One d c q i =
     (case filter (\<lambda>(c', y). c' = c \<and> doc_id y = map_of q ''_id'') d of
        [] \<Rightarrow> (Some ''not found'', i)
      | (c', y) # _ \<Rightarrow> (None, Some (V_Ptr y)))"

definition mem_All :: "(coll \<times> goval) list \<Rightarrow> coll \<Rightarrow> bsonM \<Rightarrow> goval option \<Rightarrow> string option \<times> goval option" where
  "mem_All d c q i =
     (case i of
        Some (V_Ptr (V_Slice t _)) \<Rightarrow>
          (None, Some (V_Ptr (V_Slice t
             (map snd (filter (\<lambda>(c', y). c' = c \<and> doc_id y = map_of q ''_id'') d)))))
      | _ \<Rightarrow> (Some ''result argument must be a slice address'', i))"

definition mem_Update :: "(coll \<times> goval) list \<Rightarrow> coll \<Rightarrow> bsonM \<Rightarrow> goval option \<Rightarrow> string option \<times> (coll \<times> goval) list" where
  "mem_Update d c q doc =
     (case deref doc of
        None \<Rightarrow> (Some ''no document'', d)
      | Some x \<Rightarrow>
          if mem_has d c (map_of q ''_id'') then
            (None, map (\<lambda>(c', y). if c' = c \<and> doc_id y = map_of q ''_id'' then (c', x) else (c', y)) d)
          else (Some ''not found'', d))"

definition mem_RemoveId :: "(coll \<times> goval) list \<Rightarrow> coll \<Rightarrow> string \<Rightarrow> string option \<times> (coll \<times> goval) list" where
  "mem_RemoveId d c oid =
     (if mem_has d c (Some (V_ObjectId oid)) then
        (None, filter (\<lambda>(c', y). \<not> (c' = c \<and> doc_id y = Some (V_ObjectId oid))) d)
      else (Some ''not found'', d))"

definition oid_n :: "nat \<Rightarrow> string" where
  "oid_n n = replicate 11 (char_of (0::nat)) @ [char_of n]"

text \<open>
  One type of a caller implements \<^verbatim>\<open>bson.Getter\<close>: the struct \<^verbatim>\<open>Key\<close>, and
  with it \<^verbatim>\<open>*Key\<close>. Its \<^verbatim>\<open>GetBSON\<close> returns the twelve bytes of its field
  \<^verbatim>\<open>Raw\<close> as an object identifier, and an error when they are not twelve.
\<close>

fun Key_Getter :: "gotype \<Rightarrow> bool" where
  "Key_Getter (T_Struct n _) = (n = ''Key'')"
| "Key_Getter (T_Ptr (T_Struct n _)) = (n = ''Key'')"
| "Key_Getter _ = False"

fun Key_GetBSON :: "goval \<Rightarrow> (goval option \<times> error option) result" where
  "Key_GetBSON (V_Struct n fs) =
     (case map_of fs ''Raw'' of
        Some (V_string s) \<Rightarrow>
          if length s = 12 then Return (Some (V_ObjectId s), None)
          else Return (None, Some (errorString ''Key: not twelve bytes''))
      | _ \<Rightarrow> Return (None, Some (errorString ''Key: not twelve bytes'')))"
| "Key_GetBSON (V_Ptr x) = Key_GetBSON x"
| "Key_GetBSON _ = Panic"

definition mem :: "(coll \<times> goval) list mgo" where
  "mem =
     \<lparr>mgo_Dial = (\<lambda>d s. if s = [] then Some ''no reachable servers'' else None),
      coll_Insert = mem_Insert,
      query_One = mem_One,
      query_All = mem_All,
      coll_Update = mem_Update,
      coll_RemoveId = mem_RemoveId,
      coll_Count = (\<lambda>d c. (int (length (filter (\<lambda>(c', y). c' = c) d)), None)),
      bson_NewObjectId = oid_n,
      bson_Unmarshal = (\<lambda>k d. Inl ''cannot unmarshal into an ObjectId''),
      time_Now = (\<lambda>n. 1000 + n),
      user_Getter = Key_Getter,
      user_GetBSON = Key_GetBSON,
      fmt_t = (\<lambda>i. case i of None \<Rightarrow> ''%!t(<nil>)''
                       | Some x \<Rightarrow> ''%!t('' @ Type_Name (TypeOf x) @ '')'')\<rparr>"

text \<open>A world after \<^verbatim>\<open>SetServers("localhost", "test")\<close>, with an empty server.\<close>

definition world0 :: "(coll \<times> goval) list world" where
  "world0 =
     \<lparr>mgoSession = True, servers = [], database = ''test'',
      objectIdCounter = 1, clockReads = 0, server = [], trace = []\<rparr>"

text \<open>The record type of the package's tests, \<^verbatim>\<open>MongoTest\<close>.\<close>

definition MongoTest :: "string \<Rightarrow> string \<Rightarrow> nat \<Rightarrow> nat \<Rightarrow> goval" where
  "MongoTest oid name c u =
     V_Struct ''MongoTest''
       [(''Id'', V_ObjectId oid), (''Name'', V_string name),
        (''CreatedAt'', V_Time c), (''UpdatedAt'', V_Time u)]"

text \<open>A valid identifier, twelve bytes long, and two records without identifier.\<close>

definition oid7 :: string where
  "oid7 = ''abcdefghijkl''"

definition george :: goval where
  "george = MongoTest [] ''George'' 0 0"

definition judy :: goval where
  "judy = MongoTest [] ''Judy'' 0 0"

text \<open>The world \<open>world0\<close> with a server that already holds the identifier \<open>oid_n 2\<close>.\<close>

definition world1 :: "(coll \<times> goval) list world" where
  "world1 = world0\<lparr>server := [((''test'', ''MongoTest''), MongoTest (oid_n 2) ''Jane'' 5 5)]\<rparr>"

section \<open>The loop of Insert\<close>

lemma inserted_append: "inserted (xs @ ys) = inserted xs @ inserted ys"
  by (induction xs rule: inserted.induct) simp_all

lemma attempted_append: "attempted (xs @ ys) = attempted xs @ attempted ys"
  by (induction xs rule: attempted.induct) simp_all

lemma Insert_rec_NoPtr: "\<not> isPtr r \<Longrightarrow> Insert_rec D w r = (Return (Some NoPtr), r, w)"
  by (simp add: Insert_rec_def)

lemma Insert_append:
  "Insert D w ps = (Return None, ps', w1) \<Longrightarrow>
   Insert D w (ps @ rs) = (case Insert D w1 rs of (r, rs', w2) \<Rightarrow> (r, ps' @ rs', w2))"
proof (induction ps arbitrary: w ps')
  case Nil
  then show ?case by (auto split: prod.splits)
next
  case (Cons p ps)
  obtain r p' wa where step: "Insert_rec D w p = (r, p', wa)"
    by (cases "Insert_rec D w p") auto
  obtain r2 qs wb where rest: "Insert D wa ps = (r2, qs, wb)"
    by (cases "Insert D wa ps") auto
  from Cons.prems step rest have ok: "r = Return None" "r2 = Return None" "ps' = p' # qs" "wb = w1"
    by (auto split: result.splits option.splits)
  from Cons.IH [of wa qs] rest ok
  have "Insert D wa (ps @ rs) = (case Insert D w1 rs of (r, rs', w2) \<Rightarrow> (r, qs @ rs', w2))"
    by simp
  with step ok show ?case
    by (auto split: prod.splits)
qed

lemma GetSession_frame:
  "trace (snd (GetSession D w)) = trace w \<and> server (snd (GetSession D w)) = server w
   \<and> database (snd (GetSession D w)) = database w"
  by (simp add: GetSession_def split: option.splits)

lemma addCurrentDateTime_frame:
  "trace (snd (snd (addCurrentDateTime D w i name))) = trace w
   \<and> server (snd (snd (addCurrentDateTime D w i name))) = server w"
  by (simp add: addCurrentDateTime_def Let_def split: result.splits bool.splits option.splits)

lemma addId_frame:
  "trace (snd (snd (addId D w i))) = trace w \<and> server (snd (snd (addId D w i))) = server w"
  by (simp add: addId_def Let_def split: option.splits goval.splits)

lemma addNewFields_frame:
  "trace (snd (snd (addNewFields D w i))) = trace w
   \<and> server (snd (snd (addNewFields D w i))) = server w"
proof -
  obtain r1 i1 w1 where a: "addId D w i = (r1, i1, w1)"
    by (cases "addId D w i") auto
  obtain r2 i2 w2 where b: "addCurrentDateTime D w1 i1 ''CreatedAt'' = (r2, i2, w2)"
    by (cases "addCurrentDateTime D w1 i1 ''CreatedAt''") auto
  obtain r3 i3 w3 where c: "addCurrentDateTime D w2 i2 ''UpdatedAt'' = (r3, i3, w3)"
    by (cases "addCurrentDateTime D w2 i2 ''UpdatedAt''") auto
  from a addId_frame [of D w i] have 1: "trace w1 = trace w" "server w1 = server w" by simp_all
  from b addCurrentDateTime_frame [of D w1 i1 "''CreatedAt''"]
  have 2: "trace w2 = trace w1" "server w2 = server w1" by simp_all
  from c addCurrentDateTime_frame [of D w2 i2 "''UpdatedAt''"]
  have 3: "trace w3 = trace w2" "server w3 = server w2" by simp_all
  show ?thesis
    using a b c 1 2 3
    by (auto simp: addNewFields_def split: result.splits option.splits)
qed

lemma Insert_rec_trace:
  assumes "Insert_rec D w r = (res, r', w')"
  shows "(res = Return None \<longrightarrow> inserted (trace w') = inserted (trace w) @ [r']
            \<and> attempted (trace w') = attempted (trace w) @ [r'])
       \<and> (res \<noteq> Return None \<longrightarrow> inserted (trace w') = inserted (trace w)
            \<and> (attempted (trace w') = attempted (trace w) \<or> attempted (trace w') = attempted (trace w) @ [r']))"
proof (cases "isPtr r")
  case False
  with assms show ?thesis by (auto simp: Insert_rec_def)
next
  case True
  obtain r1 i1 w1 where a: "addNewFields D w r = (r1, i1, w1)"
    by (cases "addNewFields D w r") auto
  from a addNewFields_frame [of D w r] have 1: "trace w1 = trace w" by simp
  obtain e2 w2 where b: "GetSession D w1 = (e2, w2)"
    by (cases "GetSession D w1") auto
  from b GetSession_frame [of D w1] have 2: "trace w2 = trace w1" by simp
  show ?thesis
    using assms True a b 1 2
    by (auto simp: Insert_rec_def inserted_append attempted_append
             split: result.splits option.splits prod.splits)
qed


lemma Insert_ok_trace:
  "Insert D w ps = (Return None, ps', w1) \<Longrightarrow>
   inserted (trace w1) = inserted (trace w) @ ps' \<and> attempted (trace w1) = attempted (trace w) @ ps'
   \<and> length ps' = length ps"
proof (induction ps arbitrary: w ps')
  case Nil
  then show ?case by simp
next
  case (Cons p ps)
  obtain r p' wa where step: "Insert_rec D w p = (r, p', wa)"
    by (cases "Insert_rec D w p") auto
  obtain r2 qs wb where rest: "Insert D wa ps = (r2, qs, wb)"
    by (cases "Insert D wa ps") auto
  from Cons.prems step rest have ok: "r = Return None" "r2 = Return None" "ps' = p' # qs" "wb = w1"
    by (auto split: result.splits option.splits)
  from Insert_rec_trace [OF step] ok
  have a: "inserted (trace wa) = inserted (trace w) @ [p']"
          "attempted (trace wa) = attempted (trace w) @ [p']" by simp_all
  from Cons.IH [of wa qs] rest ok
  have b: "inserted (trace w1) = inserted (trace wa) @ qs"
          "attempted (trace w1) = attempted (trace wa) @ qs" "length qs = length ps" by simp_all
  from a b ok show ?case by simp
qed

text \<open>
  C4. In a batch \<open>r1 .. rn\<close> whose records before \<open>rk\<close> are inserted without
  error (\<open>Insert\<close> of that prefix returns nil) and whose record \<open>rk\<close> fails
  with \<open>e\<close>, whatever the failure is, \<open>Insert\<close> returns \<open>e\<close>; the documents
  inserted since the call began are exactly \<open>r1 .. r(k-1)\<close>, as they are after
  the call; nothing more was inserted for \<open>rk\<close>, which was handed to the driver
  at most once; and the records after \<open>rk\<close> are returned untouched, the world
  being the one that \<open>rk\<close> left.
\<close>

theorem Insert_stops_at_first_failure:
  assumes "Insert D w ps = (Return None, ps', w1)"
      and "Insert_rec D w1 r = (Return (Some e), r', w2)"
  shows "Insert D w (ps @ r # rs) = (Return (Some e), ps' @ r' # rs, w2)
       \<and> inserted (trace w1) = inserted (trace w) @ ps'
       \<and> inserted (trace w2) = inserted (trace w1)
       \<and> (attempted (trace w2) = attempted (trace w1)
            \<or> attempted (trace w2) = attempted (trace w1) @ [r'])"
proof -
  have "Insert D w (ps @ r # rs) = (Return (Some e), ps' @ r' # rs, w2)"
    using Insert_append [OF assms(1), of "r # rs"] assms(2) by simp
  moreover have "inserted (trace w1) = inserted (trace w) @ ps'"
    using Insert_ok_trace [OF assms(1)] by simp
  moreover have "inserted (trace w2) = inserted (trace w1)
       \<and> (attempted (trace w2) = attempted (trace w1)
            \<or> attempted (trace w2) = attempted (trace w1) @ [r'])"
    using Insert_rec_trace [OF assms(2)] by simp
  ultimately show ?thesis by simp
qed

text \<open>A run on the driver in memory: the second of three records meets a duplicate key.\<close>

theorem Insert_stops_at_first_failure_witness:
  "Insert mem world1 [Some (V_Ptr george)] =
     (Return None, [Some (V_Ptr (MongoTest (oid_n 1) ''George'' 1000 1001))],
      world1\<lparr>objectIdCounter := 2, clockReads := 2,
         server := server world1 @ [((''test'', ''MongoTest''), MongoTest (oid_n 1) ''George'' 1000 1001)],
         trace := [Insert_call (''test'', ''MongoTest'')
                     (Some (V_Ptr (MongoTest (oid_n 1) ''George'' 1000 1001))) None]\<rparr>)
   \<and> Insert_rec mem
        (world1\<lparr>objectIdCounter := 2, clockReads := 2,
         server := server world1 @ [((''test'', ''MongoTest''), MongoTest (oid_n 1) ''George'' 1000 1001)],
         trace := [Insert_call (''test'', ''MongoTest'')
                     (Some (V_Ptr (MongoTest (oid_n 1) ''George'' 1000 1001))) None]\<rparr>)
        (Some (V_Ptr judy)) =
     (Return (Some (mgoError ''E11000 duplicate key error'')),
      Some (V_Ptr (MongoTest (oid_n 2) ''Judy'' 1002 1003)),
      world1\<lparr>objectIdCounter := 3, clockReads := 4,
         server := server world1 @ [((''test'', ''MongoTest''), MongoTest (oid_n 1) ''George'' 1000 1001)],
         trace := [Insert_call (''test'', ''MongoTest'')
                     (Some (V_Ptr (MongoTest (oid_n 1) ''George'' 1000 1001))) None,
                   Insert_call (''test'', ''MongoTest'')
                     (Some (V_Ptr (MongoTest (oid_n 2) ''Judy'' 1002 1003)))
                     (Some ''E11000 duplicate key error'')]\<rparr>)
   \<and> Insert mem world1 ([Some (V_Ptr george)] @ Some (V_Ptr judy) # [Some (V_Ptr george)]) =
     (Return (Some (mgoError ''E11000 duplicate key error'')),
      [Some (V_Ptr (MongoTest (oid_n 1) ''George'' 1000 1001))]
        @ Some (V_Ptr (MongoTest (oid_n 2) ''Judy'' 1002 1003)) # [Some (V_Ptr george)],
      world1\<lparr>objectIdCounter := 3, clockReads := 4,
         server := server world1 @ [((''test'', ''MongoTest''), MongoTest (oid_n 1) ''George'' 1000 1001)],
         trace := [Insert_call (''test'', ''MongoTest'')
                     (Some (V_Ptr (MongoTest (oid_n 1) ''George'' 1000 1001))) None,
                   Insert_call (''test'', ''MongoTest'')
                     (Some (V_Ptr (MongoTest (oid_n 2) ''Judy'' 1002 1003)))
                     (Some ''E11000 duplicate key error'')]\<rparr>)"
  (is "?A \<and> ?B \<and> ?C")
proof -
  have h1: ?A by code_simp
  have h2: ?B by code_simp
  from Insert_stops_at_first_failure [OF h1 h2, of "[Some (V_Ptr george)]"] h1 h2
  show ?thesis by blast
qed


text \<open>
  C3, amended. When the arguments before a non-pointer value are inserted
  without error, \<open>Insert\<close> returns \<open>NoPtr\<close> and the world is the one those
  arguments left: nothing is written for the non-pointer value nor for any
  argument after it. When the non-pointer value is the first argument, the
  world is unchanged.
\<close>

theorem Insert_non_pointer:
  assumes "Insert D w ps = (Return None, ps', w1)" and "\<not> isPtr r"
  shows "Insert D w (ps @ r # rs) = (Return (Some NoPtr), ps' @ r # rs, w1)
       \<and> Insert D w (r # rs) = (Return (Some NoPtr), r # rs, w)"
  using Insert_append [OF assms(1), of "r # rs"]
    Insert_rec_NoPtr [OF assms(2), of D w1] Insert_rec_NoPtr [OF assms(2), of D w]
  by simp


text \<open>A run on the driver in memory: a struct passed by value after a pointer.\<close>

theorem Insert_non_pointer_witness:
  "Insert mem world0 [Some (V_Ptr george)] =
     (Return None, [Some (V_Ptr (MongoTest (oid_n 1) ''George'' 1000 1001))],
      world0\<lparr>objectIdCounter := 2, clockReads := 2,
         server := [((''test'', ''MongoTest''), MongoTest (oid_n 1) ''George'' 1000 1001)],
         trace := [Insert_call (''test'', ''MongoTest'')
                     (Some (V_Ptr (MongoTest (oid_n 1) ''George'' 1000 1001))) None]\<rparr>)
   \<and> \<not> isPtr (Some judy)
   \<and> Insert mem world0 ([Some (V_Ptr george)] @ Some judy # [Some (V_Ptr judy)]) =
     (Return (Some NoPtr),
      [Some (V_Ptr (MongoTest (oid_n 1) ''George'' 1000 1001))] @ Some judy # [Some (V_Ptr judy)],
      world0\<lparr>objectIdCounter := 2, clockReads := 2,
         server := [((''test'', ''MongoTest''), MongoTest (oid_n 1) ''George'' 1000 1001)],
         trace := [Insert_call (''test'', ''MongoTest'')
                     (Some (V_Ptr (MongoTest (oid_n 1) ''George'' 1000 1001))) None]\<rparr>)
   \<and> Insert mem world0 (Some judy # [Some (V_Ptr judy)]) =
     (Return (Some NoPtr), Some judy # [Some (V_Ptr judy)], world0)"
proof -
  have h1: "Insert mem world0 [Some (V_Ptr george)] =
     (Return None, [Some (V_Ptr (MongoTest (oid_n 1) ''George'' 1000 1001))],
      world0\<lparr>objectIdCounter := 2, clockReads := 2,
         server := [((''test'', ''MongoTest''), MongoTest (oid_n 1) ''George'' 1000 1001)],
         trace := [Insert_call (''test'', ''MongoTest'')
                     (Some (V_Ptr (MongoTest (oid_n 1) ''George'' 1000 1001))) None]\<rparr>)"
    by code_simp
  have h2: "\<not> isPtr (Some judy)"
    by code_simp
  from Insert_non_pointer [OF h1 h2, of "[Some (V_Ptr judy)]"] h1 h2
  show ?thesis by blast
qed

text \<open>
  C3 as it is stated fails on that batch: \<open>NoPtr\<close> is returned, and the
  record before the non-pointer value has been inserted.
\<close>

theorem Insert_non_pointer_after_pointer:
  "fst (Insert mem world0 [Some (V_Ptr george), Some judy]) = Return (Some NoPtr)
   \<and> inserted (trace (snd (snd (Insert mem world0 [Some (V_Ptr george), Some judy])))) =
       [Some (V_Ptr (MongoTest (oid_n 1) ''George'' 1000 1001))]
   \<and> server (snd (snd (Insert mem world0 [Some (V_Ptr george), Some judy]))) \<noteq> server world0"
  by code_simp

section \<open>The Id alias and the hexadecimal form\<close>

lemma fromHexChar_hexdigit: "n < 16 \<Longrightarrow> fromHexChar (hexdigit n) = Some n"
  unfolding fromHexChar_def hexdigit_def Let_def
  by simp

lemma of_char_lt_256: "(of_char c :: nat) < 256"
proof -
  have "(of_char c :: nat) mod 256 < 256" by (rule mod_less_divisor) simp
  then show ?thesis by (simp only: of_char_mod_256)
qed

lemma DecodeString_Hex: "DecodeString (Hex s) = Some s"
proof (induction s)
  case Nil
  show ?case by simp
next
  case (Cons c cs)
  have hi: "(of_char c :: nat) div 16 < 16"
    using of_char_lt_256 [of c] by arith
  have lo: "(of_char c :: nat) mod 16 < 16" by simp
  have "char_of ((of_char c :: nat) div 16 * 16 + of_char c mod 16) = c"
    by simp
  with hi lo Cons show ?case
    by (simp add: fromHexChar_hexdigit)
qed

lemma ObjectIdHex_Hex: "Valid v \<Longrightarrow> ObjectIdHex (Hex v) = Return v"
  by (simp add: ObjectIdHex_def DecodeString_Hex Valid_def)

text \<open>
  C7. For every valid object identifier \<open>v\<close>, \<open>SetBSON\<close> of the element that
  holds \<open>v\<close> (kind 0x07) returns no error and leaves the hexadecimal form of
  \<open>v\<close> in the \<open>Id\<close>, and \<open>GetBSON\<close> of that \<open>Id\<close> returns \<open>v\<close>, without
  error.
\<close>

theorem Id_roundtrip:
  assumes "Valid v"
  shows "fst (SetBSON D i (Raw 7 v)) = None
       \<and> snd (SetBSON D i (Raw 7 v)) = Hex v
       \<and> GetBSON (snd (SetBSON D i (Raw 7 v))) = Return (v, None)"
  using assms ObjectIdHex_Hex [OF assms]
  by (simp add: SetBSON_def GetBSON_def Valid_def)

theorem Id_roundtrip_witness:
  "Valid oid7
   \<and> fst (SetBSON mem [] (Raw 7 oid7)) = None
   \<and> snd (SetBSON mem [] (Raw 7 oid7)) = ''6162636465666768696a6b6c''
   \<and> GetBSON ''6162636465666768696a6b6c'' = Return (oid7, None)"
proof -
  have h: "Valid oid7" by code_simp
  have e: "Hex oid7 = ''6162636465666768696a6b6c''" by code_simp
  from Id_roundtrip [OF h, of mem "[]"] have
    "fst (SetBSON mem [] (Raw 7 oid7)) = None"
    "snd (SetBSON mem [] (Raw 7 oid7)) = Hex oid7"
    "GetBSON (snd (SetBSON mem [] (Raw 7 oid7))) = Return (oid7, None)"
    by blast+
  with h e show ?thesis by simp
qed

section \<open>FindById and Find\<close>

lemma typeName_value: "\<exists>name. typeName (Some x) = Return name"
  by (cases "TypeOf x")
     (auto simp: typeName_def isSlice_def Let_def split: gotype.splits option.splits)

text \<open>
  C9. An id string that is not the hexadecimal form of an object identifier
  makes \<open>FindById\<close> panic, whatever the target and the world, which it leaves
  as they are: no error value is returned. \<^verbatim>\<open>"xyz"\<close> is such a string.
\<close>

theorem FindById_malformed_panics:
  "\<not> IsObjectIdHex hex \<Longrightarrow> FindById D w i hex = (Panic, i, w)"
  by (simp add: FindById_def ObjectIdHex_def IsObjectIdHex_def split: option.splits)

theorem FindById_malformed_panics_witness:
  "\<not> IsObjectIdHex ''xyz''
   \<and> FindById mem world0 (Some (V_Ptr (MongoTest [] [] 0 0))) ''xyz'' =
       (Panic, Some (V_Ptr (MongoTest [] [] 0 0)), world0)"
proof -
  have h: "\<not> IsObjectIdHex ''xyz''" by code_simp
  from FindById_malformed_panics [OF h] h show ?thesis by blast
qed

text \<open>
  C2, amended. For every target and every id string that decodes, from base
  16, to a valid object identifier \<open>oid\<close>, \<open>FindById\<close> is \<open>Find\<close> with the
  filter \<^verbatim>\<open>{"_id": oid}\<close>: same result, same target, same world.
\<close>

theorem FindById_is_Find:
  assumes "DecodeString hex = Some oid" and "Valid oid"
  shows "FindById D w i hex = Find D w i [(''_id'', V_ObjectId oid)]"
  using assms by (simp add: FindById_def ObjectIdHex_def Valid_def)

theorem FindById_is_Find_witness:
  "DecodeString ''6162636465666768696A6B6C'' = Some oid7 \<and> Valid oid7
   \<and> FindById mem world0 (Some (V_Ptr (MongoTest [] [] 0 0))) ''6162636465666768696A6B6C'' =
     Find mem world0 (Some (V_Ptr (MongoTest [] [] 0 0))) [(''_id'', V_ObjectId oid7)]"
proof -
  have h1: "DecodeString ''6162636465666768696A6B6C'' = Some oid7" by code_simp
  have h2: "Valid oid7" by code_simp
  from FindById_is_Find [OF h1 h2] h1 h2 show ?thesis by blast
qed

text \<open>
  C2 as it is stated fails for the id \<^verbatim>\<open>"xyz"\<close>: \<open>Find\<close> with the filter
  \<^verbatim>\<open>{"_id": "xyz"}\<close> returns the driver's error, \<open>FindById\<close> panics.
\<close>

theorem FindById_differs_from_Find:
  "fst (FindById mem world0 (Some (V_Ptr (MongoTest [] [] 0 0))) ''xyz'') = Panic
   \<and> fst (Find mem world0 (Some (V_Ptr (MongoTest [] [] 0 0))) [(''_id'', V_string ''xyz'')]) =
       Return (Some (mgoError ''not found''))"
  by code_simp

text \<open>In \<^verbatim>\<open>src/mongo.go\<close> the id string itself is the value of the filter.\<close>

lemma FindById_labix_is_Find:
  "FindById_labix D w i s = Find D w i [(''_id'', V_string s)]"
  by (simp add: FindById_labix_def)

section \<open>Count\<close>

lemma no_pointer_NoPtr:
  assumes "\<not> isPtr i"
  shows "Find D w i q = (Return (Some NoPtr), i, w)"
    and "Update D w i = (Return (Some NoPtr), i, w)"
    and "Delete D w i = (Return (Some NoPtr), w)"
    and "Insert D w [i] = (Return (Some NoPtr), [i], w)"
  using assms by (simp_all add: Find_def Update_def Delete_def Insert_rec_def)

text \<open>
  C10, amended. \<open>Count\<close> makes no pointer check: for every argument that holds
  a value \<open>x\<close>, pointer or not, once a session is obtained \<open>Count\<close> derives
  the name of the collection from the type of \<open>x\<close> and returns what the
  driver's \<^verbatim>\<open>Count\<close> returns; and for no argument at all does it return
  \<open>NoPtr\<close>.
\<close>

theorem Count_no_pointer_check:
  assumes "GetSession D w = (None, w')"
  shows "(\<exists>name. typeName (Some x) = Return name
           \<and> Count D w (Some x) =
               (Return (fst (coll_Count D (server w') (GetColl w' name)),
                        map_option mgoError (snd (coll_Count D (server w') (GetColl w' name)))),
                w'\<lparr>trace := trace w' @ [Count_call (GetColl w' name)]\<rparr>))
       \<and> fst (Count D w i) \<noteq> Return (n, Some NoPtr)"
proof -
  obtain name where nm: "typeName (Some x) = Return name"
    using typeName_value by blast
  have "Count D w (Some x) =
               (Return (fst (coll_Count D (server w') (GetColl w' name)),
                        map_option mgoError (snd (coll_Count D (server w') (GetColl w' name)))),
                w'\<lparr>trace := trace w' @ [Count_call (GetColl w' name)]\<rparr>)"
    using assms nm by (simp add: Count_def split: prod.splits)
  moreover have "fst (Count D w i) \<noteq> Return (n, Some NoPtr)"
    using assms by (auto simp: Count_def split: prod.splits result.splits option.splits)
  ultimately show ?thesis using nm by blast
qed

text \<open>A run on the driver in memory, with a struct passed by value.\<close>

theorem Count_no_pointer_check_witness:
  "GetSession mem world0 = (None, world0)
   \<and> \<not> isPtr (Some judy)
   \<and> typeName (Some judy) = Return ''MongoTest''
   \<and> Count mem world0 (Some judy) =
       (Return (0, None), world0\<lparr>trace := [Count_call (''test'', ''MongoTest'')]\<rparr>)
   \<and> fst (Count mem world0 (Some judy)) \<noteq> Return (0, Some NoPtr)"
proof -
  have h: "GetSession mem world0 = (None, world0)" by code_simp
  have p: "\<not> isPtr (Some judy)" by code_simp
  have t: "typeName (Some judy) = Return ''MongoTest''" by code_simp
  have c: "coll_Count mem (server world0) (''test'', ''MongoTest'') = (0, None)" by code_simp
  have g: "GetColl world0 ''MongoTest'' = (''test'', ''MongoTest'')" by code_simp
  have tr: "trace world0 = []" by code_simp
  from Count_no_pointer_check [OF h, of judy "Some judy" 0] t
  have "Count mem world0 (Some judy) =
          (Return (fst (coll_Count mem (server world0) (GetColl world0 ''MongoTest'')),
                   map_option mgoError (snd (coll_Count mem (server world0) (GetColl world0 ''MongoTest'')))),
           world0\<lparr>trace := trace world0 @ [Count_call (GetColl world0 ''MongoTest'')]\<rparr>)"
    and n: "fst (Count mem world0 (Some judy)) \<noteq> Return (0, Some NoPtr)"
    by auto
  then have "Count mem world0 (Some judy) =
       (Return (0, None), world0\<lparr>trace := [Count_call (''test'', ''MongoTest'')]\<rparr>)"
    by (simp add: c g tr)
  with h p t n show ?thesis by blast
qed

lemma Count_never_NoPtr: "fst (Count D w i) \<noteq> Return (n, Some NoPtr)"
  by (auto simp: Count_def GetSession_def split: prod.splits result.splits option.splits)

text \<open>C10 as it is stated fails for the nil interface: \<open>Count\<close> panics.\<close>

theorem Count_nil_panics: "Count mem world0 None = (Panic, world0)"
  by code_simp

section \<open>Fields set before a write\<close>

lemma map_of_update_field:
  "map_of (update_field name x fs) k =
     (if k = name then map_option (\<lambda>old. assign old x) (map_of fs name) else map_of fs k)"
  by (induction fs) auto

lemma map_fst_update_field: "map fst (update_field name x fs) = map fst fs"
  by (induction fs) auto

lemma map_of_TypeOf:
  "map_of (map (\<lambda>(k, v). (k, TypeOf v)) fs) name = map_option TypeOf (map_of fs name)"
  by (induction fs) auto

lemma hasStructField_ptr_struct:
  "hasStructField (Some (V_Ptr (V_Struct n fs))) name = Return (map_of fs name \<noteq> None)"
  by (simp add: hasStructField_def map_of_TypeOf)


lemma addCurrentDateTime_time:
  assumes "map_of fs name = Some x0" and "Indirect (Some x0) = Some x" and "TypeOf x = T_Time"
  shows "addCurrentDateTime D w (Some (V_Ptr (V_Struct n fs))) name =
     (Return None,
      Some (V_Ptr (V_Struct n (update_field name (V_Time (time_Now D (clockReads w))) fs))),
      w\<lparr>clockReads := clockReads w + 1\<rparr>)"
  using assms
  by (cases x0)
     (auto simp: addCurrentDateTime_def hasStructField_ptr_struct Let_def Indirect_def
        CanSet_def Set_field_def Kind_def)


lemma addId_ptr_struct:
  "\<exists>b y. addId D w (Some (V_Ptr (V_Struct n fs))) =
     (Return None,
      Some (V_Ptr (V_Struct n (if b then update_field ''Id'' y fs else fs))),
      (if b then w\<lparr>objectIdCounter := objectIdCounter w + 1\<rparr> else w))"
proof (cases "Kind (Indirect (map_of fs ''Id'')) = K_String")
  case False
  then have "addId D w (Some (V_Ptr (V_Struct n fs))) = (Return None, Some (V_Ptr (V_Struct n fs)), w)"
    by (simp add: addId_def Let_def Indirect_def Kind_def)
  then show ?thesis by (intro exI [of _ False]) simp
next
  case True
  then obtain x where x: "Indirect (map_of fs ''Id'') = Some x"
    by (cases "Indirect (map_of fs ''Id'')") (auto simp: Kind_def)
  show ?thesis
  proof (cases "\<exists>old. x = V_ObjectId old")
    case True
    with x \<open>Kind (Indirect (map_of fs ''Id'')) = K_String\<close>
    have "addId D w (Some (V_Ptr (V_Struct n fs))) =
       (Return None,
        Some (V_Ptr (V_Struct n (update_field ''Id'' (V_ObjectId (bson_NewObjectId D (objectIdCounter w))) fs))),
        w\<lparr>objectIdCounter := objectIdCounter w + 1\<rparr>)"
      by (auto simp: addId_def Let_def Indirect_def CanSet_def Set_field_def Kind_def)
    then show ?thesis by (intro exI [of _ True] exI) simp
  next
    case False
    with x \<open>Kind (Indirect (map_of fs ''Id'')) = K_String\<close>
    have "addId D w (Some (V_Ptr (V_Struct n fs))) =
       (Return None,
        Some (V_Ptr (V_Struct n (update_field ''Id'' (SetString x (Hex (bson_NewObjectId D (objectIdCounter w)))) fs))),
        w\<lparr>objectIdCounter := objectIdCounter w + 1\<rparr>)"
      by (cases x) (auto simp: addId_def Let_def Indirect_def CanSet_def Set_field_def Kind_def)
    then show ?thesis by (intro exI [of _ True] exI) simp
  qed
qed

lemma addId_overwrites_ObjectId:
  assumes "map_of fs ''Id'' = Some (V_ObjectId old)"
  shows "addId D w (Some (V_Ptr (V_Struct n fs))) =
     (Return None,
      Some (V_Ptr (V_Struct n (update_field ''Id'' (V_ObjectId (bson_NewObjectId D (objectIdCounter w))) fs))),
      w\<lparr>objectIdCounter := objectIdCounter w + 1\<rparr>)"
  using assms
  by (simp add: addId_def Let_def CanSet_def Set_field_def Kind_def)

lemma addId_labix_keeps_valid_Id:
  assumes "map_of fs ''Id'' = Some (V_ObjectId old)" and "Valid old"
  shows "addId_labix D w (Some (V_Ptr (V_Struct n fs))) = (Return None, Some (V_Ptr (V_Struct n fs)), w)"
  using assms
  by (simp add: addId_labix_def Let_def Kind_def)

lemma Insert_rec_record:
  "isPtr i \<Longrightarrow> fst (snd (Insert_rec D w i)) = fst (snd (addNewFields D w i))"
  by (auto simp: Insert_rec_def split: prod.splits result.splits option.splits)

lemma Insert_single:
  "Insert D w [i] = (fst (Insert_rec D w i), [fst (snd (Insert_rec D w i))], snd (snd (Insert_rec D w i)))"
  by (auto split: prod.splits result.splits option.splits)

lemma Insert_single_record: "fst (snd (Insert D w [i])) = [fst (snd (Insert_rec D w i))]"
  by (subst Insert_single) simp



lemma Update_record:
  "isPtr i \<Longrightarrow> fst (snd (Update D w i)) = fst (snd (addCurrentDateTime D w i ''UpdatedAt''))"
  by (auto simp: Update_def split: prod.splits result.splits option.splits)

lemma isPtr_V_Ptr: "isPtr (Some (V_Ptr x))"
  by (simp add: isPtr_def Kind_def)

lemma Indirect_Time: "Indirect (Some (V_Time t)) = Some (V_Time t)"
  by (simp add: Indirect_def Kind_def)

text \<open>
  C5. For a pointer to a struct whose fields \<^verbatim>\<open>CreatedAt\<close> and \<^verbatim>\<open>UpdatedAt\<close>
  are of type \<^verbatim>\<open>time.Time\<close>: after \<open>Insert\<close> of that record the two fields
  hold the two instants that \<^verbatim>\<open>time.Now\<close> returned during the call, the first
  and the second reading; after \<open>Update\<close> the field \<^verbatim>\<open>UpdatedAt\<close> holds the
  instant read during the call, \<^verbatim>\<open>CreatedAt\<close> holds what it held, and so does
  every field other than \<^verbatim>\<open>UpdatedAt\<close>, the struct keeping its fields in their
  order. This is so whatever the driver answers.
\<close>

theorem timestamps_Insert_Update:
  assumes "i = Some (V_Ptr (V_Struct n fs))"
      and "map_of fs ''CreatedAt'' = Some (V_Time c)"
      and "map_of fs ''UpdatedAt'' = Some (V_Time u)"
  shows "(\<exists>fs'. fst (snd (Insert D w [i])) = [Some (V_Ptr (V_Struct n fs'))]
            \<and> map_of fs' ''CreatedAt'' = Some (V_Time (time_Now D (clockReads w)))
            \<and> map_of fs' ''UpdatedAt'' = Some (V_Time (time_Now D (clockReads w + 1))))
       \<and> (\<exists>fs'. fst (snd (Update D w i)) = Some (V_Ptr (V_Struct n fs'))
            \<and> map_of fs' ''UpdatedAt'' = Some (V_Time (time_Now D (clockReads w)))
            \<and> map_of fs' ''CreatedAt'' = Some (V_Time c)
            \<and> (\<forall>k. k \<noteq> ''UpdatedAt'' \<longrightarrow> map_of fs' k = map_of fs k)
            \<and> map fst fs' = map fst fs)"
proof -
  let ?now0 = "time_Now D (clockReads w)"
  let ?now1 = "time_Now D (clockReads w + 1)"
  have ptr: "isPtr i" using assms(1) by (simp add: isPtr_V_Ptr)
  \<comment> \<open>Insert: addId, then the two timestamps\<close>
  obtain b y where a: "addId D w i =
     (Return None, Some (V_Ptr (V_Struct n (if b then update_field ''Id'' y fs else fs))),
      (if b then w\<lparr>objectIdCounter := objectIdCounter w + 1\<rparr> else w))"
    using addId_ptr_struct [of D w n fs] assms(1) by blast
  define fs1 where "fs1 = (if b then update_field ''Id'' y fs else fs)"
  define w1 where "w1 = (if b then w\<lparr>objectIdCounter := objectIdCounter w + 1\<rparr> else w)"
  have c1: "map_of fs1 ''CreatedAt'' = Some (V_Time c)"
    and u1: "map_of fs1 ''UpdatedAt'' = Some (V_Time u)"
    and k1: "clockReads w1 = clockReads w"
    using assms(2,3) by (simp_all add: fs1_def w1_def map_of_update_field)
  define fs2 where "fs2 = update_field ''CreatedAt'' (V_Time ?now0) fs1"
  define w2 where "w2 = w1\<lparr>clockReads := clockReads w1 + 1\<rparr>"
  have s2: "addCurrentDateTime D w1 (Some (V_Ptr (V_Struct n fs1))) ''CreatedAt'' =
      (Return None, Some (V_Ptr (V_Struct n fs2)), w2)"
    using addCurrentDateTime_time [OF c1 Indirect_Time, of D w1 n] k1
    by (simp add: fs2_def w2_def)
  have c2: "map_of fs2 ''CreatedAt'' = Some (V_Time ?now0)"
    and u2: "map_of fs2 ''UpdatedAt'' = Some (V_Time u)"
    and k2: "clockReads w2 = clockReads w + 1"
    using c1 u1 k1 by (simp_all add: fs2_def w2_def map_of_update_field)
  define fs3 where "fs3 = update_field ''UpdatedAt'' (V_Time ?now1) fs2"
  have s3: "addCurrentDateTime D w2 (Some (V_Ptr (V_Struct n fs2))) ''UpdatedAt'' =
      (Return None, Some (V_Ptr (V_Struct n fs3)), w2\<lparr>clockReads := clockReads w2 + 1\<rparr>)"
    using addCurrentDateTime_time [OF u2 Indirect_Time, of D w2 n] k2
    by (simp add: fs3_def)
  have "addNewFields D w i =
      (Return None, Some (V_Ptr (V_Struct n fs3)), w2\<lparr>clockReads := clockReads w2 + 1\<rparr>)"
    using a s2 s3 by (simp add: addNewFields_def fs1_def w1_def)
  then have "fst (snd (Insert D w [i])) = [Some (V_Ptr (V_Struct n fs3))]"
    using Insert_rec_record [OF ptr, of D w] by (simp only: Insert_single_record) simp
  moreover have "map_of fs3 ''CreatedAt'' = Some (V_Time ?now0)"
    and "map_of fs3 ''UpdatedAt'' = Some (V_Time ?now1)"
    using c2 u2 by (simp_all add: fs3_def map_of_update_field)
  ultimately have ins: "\<exists>fs'. fst (snd (Insert D w [i])) = [Some (V_Ptr (V_Struct n fs'))]
            \<and> map_of fs' ''CreatedAt'' = Some (V_Time ?now0)
            \<and> map_of fs' ''UpdatedAt'' = Some (V_Time ?now1)"
    by blast
  \<comment> \<open>Update: the one timestamp\<close>
  define gs where "gs = update_field ''UpdatedAt'' (V_Time ?now0) fs"
  have "addCurrentDateTime D w i ''UpdatedAt'' =
      (Return None, Some (V_Ptr (V_Struct n gs)), w\<lparr>clockReads := clockReads w + 1\<rparr>)"
    using addCurrentDateTime_time [OF assms(3) Indirect_Time, of D w n] assms(1)
    by (simp add: gs_def)
  then have "fst (snd (Update D w i)) = Some (V_Ptr (V_Struct n gs))"
    using Update_record [OF ptr, of D w] by simp
  moreover have "map_of gs ''UpdatedAt'' = Some (V_Time ?now0)"
    and "map_of gs ''CreatedAt'' = Some (V_Time c)"
    and "\<forall>k. k \<noteq> ''UpdatedAt'' \<longrightarrow> map_of gs k = map_of fs k"
    and "map fst gs = map fst fs"
    using assms(2,3) by (simp_all add: gs_def map_of_update_field map_fst_update_field)
  ultimately have upd: "\<exists>fs'. fst (snd (Update D w i)) = Some (V_Ptr (V_Struct n fs'))
            \<and> map_of fs' ''UpdatedAt'' = Some (V_Time ?now0)
            \<and> map_of fs' ''CreatedAt'' = Some (V_Time c)
            \<and> (\<forall>k. k \<noteq> ''UpdatedAt'' \<longrightarrow> map_of fs' k = map_of fs k)
            \<and> map fst fs' = map fst fs"
    by blast
  from ins upd show ?thesis by blast
qed

text \<open>A run on the driver in memory, with the record of the package's tests.\<close>

theorem timestamps_Insert_Update_witness:
  "map_of [(''Id'', V_ObjectId oid7), (''Name'', V_string ''testing''),
           (''CreatedAt'', V_Time 5), (''UpdatedAt'', V_Time 6)] ''CreatedAt'' = Some (V_Time 5)
   \<and> map_of [(''Id'', V_ObjectId oid7), (''Name'', V_string ''testing''),
           (''CreatedAt'', V_Time 5), (''UpdatedAt'', V_Time 6)] ''UpdatedAt'' = Some (V_Time 6)
   \<and> fst (snd (Insert mem world0 [Some (V_Ptr (MongoTest oid7 ''testing'' 5 6))])) =
       [Some (V_Ptr (MongoTest (oid_n 1) ''testing'' 1000 1001))]
   \<and> fst (snd (Update mem world0 (Some (V_Ptr (MongoTest oid7 ''testing'' 5 6))))) =
       Some (V_Ptr (MongoTest oid7 ''testing'' 5 1000))
   \<and> (\<exists>fs'. fst (snd (Update mem world0 (Some (V_Ptr (MongoTest oid7 ''testing'' 5 6))))) =
               Some (V_Ptr (V_Struct ''MongoTest'' fs'))
            \<and> map_of fs' ''UpdatedAt'' = Some (V_Time (time_Now mem (clockReads world0)))
            \<and> map_of fs' ''CreatedAt'' = Some (V_Time 5))"
proof -
  let ?fs = "[(''Id'', V_ObjectId oid7), (''Name'', V_string ''testing''),
           (''CreatedAt'', V_Time 5), (''UpdatedAt'', V_Time 6)]"
  have h1: "Some (V_Ptr (MongoTest oid7 ''testing'' 5 6)) = Some (V_Ptr (V_Struct ''MongoTest'' ?fs))"
    by (simp add: MongoTest_def)
  have h2: "map_of ?fs ''CreatedAt'' = Some (V_Time 5)" by simp
  have h3: "map_of ?fs ''UpdatedAt'' = Some (V_Time 6)" by simp
  have e1: "fst (snd (Insert mem world0 [Some (V_Ptr (MongoTest oid7 ''testing'' 5 6))])) =
       [Some (V_Ptr (MongoTest (oid_n 1) ''testing'' 1000 1001))]" by code_simp
  have e2: "fst (snd (Update mem world0 (Some (V_Ptr (MongoTest oid7 ''testing'' 5 6))))) =
       Some (V_Ptr (MongoTest oid7 ''testing'' 5 1000))" by code_simp
  from timestamps_Insert_Update [OF h1 h2 h3, of mem world0]
  have "\<exists>fs'. fst (snd (Update mem world0 (Some (V_Ptr (MongoTest oid7 ''testing'' 5 6))))) =
               Some (V_Ptr (V_Struct ''MongoTest'' fs'))
            \<and> map_of fs' ''UpdatedAt'' = Some (V_Time (time_Now mem (clockReads world0)))
            \<and> map_of fs' ''CreatedAt'' = Some (V_Time 5)"
    by blast
  with h2 h3 e1 e2 show ?thesis by blast
qed

text \<open>
  C1 says that \<open>Insert\<close> leaves an identifier that is already valid as it
  is. On the record of the package's tests, holding the valid identifier
  \<open>oid7\<close>, \<open>Insert\<close> returns nil and the record then holds the newly made
  identifier \<open>oid_n 1\<close>, which is not \<open>oid7\<close>; \<open>addId\<close> of
  \<^verbatim>\<open>src/mongo.go\<close> leaves the record as it is. The two lemmas above,
  \<open>addId_overwrites_ObjectId\<close> and \<open>addId_labix_keeps_valid_Id\<close>, say the
  same of every record and every driver.
\<close>

theorem Insert_replaces_valid_Id:
  "Valid oid7
   \<and> fst (Insert mem world0 [Some (V_Ptr (MongoTest oid7 ''testing'' 0 0))]) = Return None
   \<and> fst (snd (Insert mem world0 [Some (V_Ptr (MongoTest oid7 ''testing'' 0 0))])) =
       [Some (V_Ptr (MongoTest (oid_n 1) ''testing'' 1000 1001))]
   \<and> oid_n 1 \<noteq> oid7
   \<and> fst (snd (addId_labix mem world0 (Some (V_Ptr (MongoTest oid7 ''testing'' 0 0))))) =
       Some (V_Ptr (MongoTest oid7 ''testing'' 0 0))"
  by code_simp

section \<open>Identifier resolution\<close>






section \<open>The type of the timestamp fields\<close>













text \<open>
  A nil pointer in a timestamp field, of whatever type, makes the operation
  panic: neither an error nor a write.
\<close>

lemma Update_nil_pointer_field_panics:
  "fst (Update mem world0
         (Some (V_Ptr (V_Struct ''Post'' [(''Id'', V_ObjectId oid7), (''UpdatedAt'', V_NilPtr T_int)]))))
     = Panic"
  by code_simp

end
